theory Spec2Isabelle
  imports Main
begin

section \<open>The CSV table widget of \<open>src/csvwidget/table.ts\<close>\<close>

subsection \<open>Values handed over by the libraries\<close>

text \<open>
  A row of \<open>d3-dsv\<close> (\<open>DSVRowString\<close>) is an object from column names to cell texts;
  \<open>row[col]\<close> of a column the row does not have is \<open>undefined\<close>, here \<open>None\<close>.
  The parsed array is the array of rows together with its \<open>columns\<close> property, which
  may be absent (\<open>rows.columns || []\<close> in \<open>render\<close>).
\<close>

type_synonym DSVRowString = "string \<rightharpoonup> string"

record DSVParsedArray =
  rows :: "DSVRowString list"
  columns :: "string list option"

text \<open>
  \<open>dsv.dsvFormat(delimiter).parse(content)\<close> is the routine of an external library. It is
  a parameter of everything below: a function of the delimiter and of the content (which
  is \<open>undefined\<close>, here \<open>None\<close>, in a model built without content) that either fails
  with whatever the library reports (\<open>Inl\<close>) or returns the parsed array (\<open>Inr\<close>).
\<close>

type_synonym 'e dsvFormat = "string \<Rightarrow> string option \<Rightarrow> 'e + DSVParsedArray"

subsection \<open>The model\<close>

text \<open>\<open>const DISPLAY_LIMIT = 1000\<close>.\<close>

definition DISPLAY_LIMIT :: nat where
  "DISPLAY_LIMIT = 1000"

text \<open>\<open>CSVModel.IOverflow\<close> and \<open>CSVModel.IOptions\<close>; both options are optional.\<close>

record IOverflow =
  available :: nat
  maximum :: nat

record IOptions =
  content :: "string option"
  delimiter :: "string option"

text \<open>
  What a signal of the model emits: \<open>stateChanged.emit(void 0)\<close> has no payload,
  \<open>maxExceeded.emit\<close> carries an \<open>IOverflow\<close>. Every operation returns the list of
  its emissions, in the order of the \<open>emit\<close> calls.
\<close>

datatype emission = stateChanged | maxExceeded IOverflow

text \<open>
  The fields of a \<open>CSVModel\<close>: \<open>_content\<close> and \<open>_delimiter\<close> of the class itself, the
  \<open>isDisposed\<close> flag of its base class \<open>VDomModel\<close>, and the slots connected to its two
  signals (the connection table that \<open>clearSignalData\<close> empties).
\<close>

record CSVModel =
  priv_content :: "string option"
  priv_delimiter :: string
  isDisposed :: bool
  stateChanged_slots :: "nat list"
  maxExceeded_slots :: "nat list"

text \<open>The JavaScript \<open>a || b\<close> on an optional string: \<open>undefined\<close> and \<open>''\<close> are falsy.\<close>

fun or_default :: "string option \<Rightarrow> string \<Rightarrow> string" where
  "or_default None d = d"
| "or_default (Some s) d = (if s = [] then d else s)"

text \<open>
  The constructor, \<open>constructor(options: CSVModel.IOptions = {})\<close>. The field
  initialisers (\<open>_content = ''\<close>, \<open>_delimiter = ''\<close>) run after \<open>super()\<close> and before the
  body, which then assigns both fields again.
\<close>

definition no_options :: IOptions where
  "no_options = \<lparr>content = None, delimiter = None\<rparr>"

definition VDomModel_new :: CSVModel where
  "VDomModel_new = \<lparr>priv_content = None, priv_delimiter = [], isDisposed = False,
     stateChanged_slots = [], maxExceeded_slots = []\<rparr>"

definition CSVModel_new :: "IOptions option \<Rightarrow> CSVModel" where
  "CSVModel_new arg =
    (let options = (case arg of None \<Rightarrow> no_options | Some opts \<Rightarrow> opts);
         this = VDomModel_new;
         this = this\<lparr>priv_content := Some [], priv_delimiter := []\<rparr>;
         this = this\<lparr>priv_content := content options\<rparr>;
         this = this\<lparr>priv_delimiter := or_default (delimiter options) '',''\<rparr>
     in this)"

text \<open>The accessors \<open>get content\<close>, \<open>set content\<close>, \<open>get delimiter\<close>, \<open>set delimiter\<close>.\<close>

definition get_content :: "CSVModel \<Rightarrow> string option" where
  "get_content this = priv_content this"

definition set_content :: "string \<Rightarrow> CSVModel \<Rightarrow> CSVModel \<times> emission list" where
  "set_content v this =
    (if priv_content this = Some v then (this, [])
     else (this\<lparr>priv_content := Some v\<rparr>, [stateChanged]))"

definition get_delimiter :: "CSVModel \<Rightarrow> string" where
  "get_delimiter this = priv_delimiter this"

definition set_delimiter :: "string \<Rightarrow> CSVModel \<Rightarrow> CSVModel \<times> emission list" where
  "set_delimiter v this =
    (if priv_delimiter this = v then (this, [])
     else (this\<lparr>priv_delimiter := v\<rparr>, [stateChanged]))"

text \<open>
  \<open>Array.prototype.splice(start, deleteCount)\<close> removes \<open>deleteCount\<close> elements from
  index \<open>start\<close> on, in place; this is the array that is left.
\<close>

definition splice :: "nat \<Rightarrow> nat \<Rightarrow> 'a list \<Rightarrow> 'a list" where
  "splice start deleteCount xs = take start xs @ drop (start + deleteCount) xs"

text \<open>
  \<open>parse()\<close>. The result is the value returned (or the parser's failure), the model after
  the call and the emissions of the call. The \<open>splice\<close> works on the array the parser
  returned, so its \<open>columns\<close> property stays, and \<open>output.length\<close> in the emitted value
  is read after it.
\<close>

definition parse :: "'e dsvFormat \<Rightarrow> CSVModel \<Rightarrow> ('e + DSVParsedArray) \<times> CSVModel \<times> emission list" where
  "parse dsvFormat this =
    (case dsvFormat (priv_delimiter this) (priv_content this) of
       Inl e \<Rightarrow> (Inl e, this, [])
     | Inr output \<Rightarrow>
         if length (rows output) > DISPLAY_LIMIT then
           (let output = output\<lparr>rows := splice 0 DISPLAY_LIMIT (rows output)\<rparr>
            in (Inr output, this,
                [maxExceeded \<lparr>available = length (rows output), maximum = DISPLAY_LIMIT\<rparr>]))
         else (Inr output, this, []))"

text \<open>
  Modelled from the spec: \<open>VDomModel.dispose\<close> (\<open>super.dispose()\<close>, of \<open>../common/vdom\<close>)
  marks the model disposed, once, and \<open>clearSignalData\<close> of the signalling library
  releases all observer subscriptions of the model. Neither is in the source at hand.
\<close>

definition clearSignalData :: "CSVModel \<Rightarrow> CSVModel" where
  "clearSignalData this = this\<lparr>stateChanged_slots := [], maxExceeded_slots := []\<rparr>"

definition VDomModel_dispose :: "CSVModel \<Rightarrow> CSVModel" where
  "VDomModel_dispose this = (if isDisposed this then this else this\<lparr>isDisposed := True\<rparr>)"

text \<open>\<open>dispose()\<close> of \<open>CSVModel\<close>: nothing when the model is disposed already.\<close>

definition dispose :: "CSVModel \<Rightarrow> CSVModel" where
  "dispose this =
    (if isDisposed this then this
     else clearSignalData (VDomModel_dispose this))"

subsection \<open>The view\<close>

text \<open>
  Modelled from the spec: the node tree that \<open>render\<close> hands to the rendering
  framework, as a plain tree of tags and children (\<open>VNode\<close> and the \<open>h\<close> functions
  belong to the framework, not to the source at hand). \<open>h.table\<close>, \<open>h.thead\<close>,
  \<open>h.tbody\<close> and \<open>h.tr\<close> are called with an array of nodes, \<open>h.th\<close> and \<open>h.td\<close>
  with a cell text; the content of a cell whose value is \<open>undefined\<close> is empty (no
  child). \<open>render\<close> passes no attributes.
\<close>

datatype VNode = VText string | VElement string "VNode list"

definition h :: "string \<Rightarrow> VNode list \<Rightarrow> VNode" where
  "h tag children = VElement tag children"

fun h_text :: "string \<Rightarrow> string option \<Rightarrow> VNode" where
  "h_text tag None = VElement tag []"
| "h_text tag (Some s) = VElement tag [VText s]"

definition h_table :: "VNode list \<Rightarrow> VNode" where "h_table = h ''table''"
definition h_thead :: "VNode list \<Rightarrow> VNode" where "h_thead = h ''thead''"
definition h_tbody :: "VNode list \<Rightarrow> VNode" where "h_tbody = h ''tbody''"
definition h_tr :: "VNode list \<Rightarrow> VNode" where "h_tr = h ''tr''"
definition h_th :: "string \<Rightarrow> VNode" where "h_th col = h_text ''th'' (Some col)"
definition h_td :: "string option \<Rightarrow> VNode" where "h_td = h_text ''td''"

text \<open>A \<open>CSVTable\<close> holds its model (\<open>this.model\<close>).\<close>

record CSVTable =
  model :: CSVModel

text \<open>
  \<open>render()\<close>: the node tree (or the failure of \<open>parse\<close>), the widget after the call
  and the emissions of the call.
\<close>

definition render :: "'e dsvFormat \<Rightarrow> CSVTable \<Rightarrow> ('e + VNode) \<times> CSVTable \<times> emission list" where
  "render dsvFormat this =
    (case parse dsvFormat (model this) of
       (Inl e, m, out) \<Rightarrow> (Inl e, this\<lparr>model := m\<rparr>, out)
     | (Inr parsed, m, out) \<Rightarrow>
         (let cols = (case columns parsed of None \<Rightarrow> [] | Some cs \<Rightarrow> cs)
          in (Inr (h_table [
                     h_thead (map (\<lambda>col. h_th col) cols),
                     h_tbody (map (\<lambda>row. h_tr (map (\<lambda>col. h_td (row col)) cols)) (rows parsed))]),
              this\<lparr>model := m\<rparr>, out)))"

subsection \<open>A parser to run the model on\<close>

text \<open>
  An instance of the parser parameter for plain text (no quoted fields): records are the
  lines of the text, fields are separated by the first character of the delimiter, the
  first record names the columns and every later record is one row. Empty text has no
  record at all, and text that is \<open>undefined\<close> is a failure. It stands in for the
  external library where a theorem is run on a concrete content.
\<close>

datatype failure = TypeError

fun split_on :: "'a \<Rightarrow> 'a list \<Rightarrow> 'a list list" where
  "split_on d [] = [[]]"
| "split_on d (c # cs) =
    (case split_on d cs of
       [] \<Rightarrow> [[c]]
     | f # fs \<Rightarrow> if c = d then [] # f # fs else (c # f) # fs)"

fun fields :: "string \<Rightarrow> string \<Rightarrow> string list" where
  "fields [] line = [line]"
| "fields (d # ds) line = split_on d line"

fun plain_dsv :: "failure dsvFormat" where
  "plain_dsv d None = Inl TypeError"
| "plain_dsv d (Some text) =
    (if text = [] then Inr \<lparr>rows = [], columns = None\<rparr>
     else (case split_on (CHR 0x0A) text of
             [] \<Rightarrow> Inr \<lparr>rows = [], columns = None\<rparr>
           | l # ls \<Rightarrow>
               (let header = fields d l
                in Inr \<lparr>rows = map (\<lambda>r. map_of (zip header (fields d r))) ls,
                        columns = Some header\<rparr>)))"

text \<open>
  Contents to run it on: the example of the specification, \<open>a,b\<close> / \<open>1,2\<close> / \<open>3,4\<close>, and a
  one-column content with \<open>a\<close> rows \<open>x\<close> followed by \<open>b\<close> rows \<open>y\<close>.
\<close>

definition example_csv :: string where
  "example_csv = ''a,b\<newline>1,2\<newline>3,4''"

definition xy_csv :: "nat \<Rightarrow> nat \<Rightarrow> string" where
  "xy_csv a b = ''n'' @ concat (replicate a ''\<newline>x'') @ concat (replicate b ''\<newline>y'')"

definition example_parsed :: DSVParsedArray where
  "example_parsed =
    \<lparr>rows = [map_of [(''a'', ''1''), (''b'', ''2'')], map_of [(''a'', ''3''), (''b'', ''4'')]],
     columns = Some [''a'', ''b'']\<rparr>"

definition model_of :: "string \<Rightarrow> CSVModel" where
  "model_of text = CSVModel_new (Some \<lparr>content = Some text, delimiter = None\<rparr>)"


text \<open>
  Models to dispose: a model with content \<open>a,b\<close>, delimiter \<open>;\<close> and slots connected
  to both signals, and a disposed model, that one after \<open>dispose\<close>, a new content and a
  slot connected since.
\<close>

definition live_model :: CSVModel where
  "live_model =
    (CSVModel_new (Some \<lparr>content = Some ''a,b'', delimiter = Some '';''\<rparr>))
      \<lparr>stateChanged_slots := [1], maxExceeded_slots := [2, 3]\<rparr>"

definition disposed_model :: CSVModel where
  "disposed_model = (fst (set_content ''c'' (dispose live_model)))\<lparr>stateChanged_slots := [4]\<rparr>"

section \<open>Properties\<close>

subsection \<open>The sample parser on the sample contents\<close>

lemma split_on_not_Nil: "split_on d cs \<noteq> []"
  by (induction cs) (auto split: list.splits)

lemma split_on_sep: "split_on d (d # cs) = [] # split_on d cs"
  using split_on_not_Nil [of d cs] by (cases "split_on d cs") auto

lemma split_on_prefix:
  "d \<notin> set g \<Longrightarrow> split_on d rest = [] # fs \<Longrightarrow> split_on d (g @ rest) = g # fs"
  by (induction g) auto

lemma split_on_records:
  "d \<notin> set g \<Longrightarrow> split_on d t = [] # fs \<Longrightarrow>
   split_on d (concat (replicate k (d # g)) @ t) = [] # replicate k g @ fs"
proof (induction k)
  case 0
  then show ?case by simp
next
  case (Suc k)
  then have "split_on d (g @ concat (replicate k (d # g)) @ t) = g # replicate k g @ fs"
    using split_on_prefix [of d g] by simp
  then show ?case
    by (simp add: split_on_sep del: split_on.simps)
qed

lemma split_on_records_end:
  "d \<notin> set g \<Longrightarrow> split_on d (concat (replicate k (d # g))) = [] # replicate k g"
proof (induction k)
  case 0
  then show ?case by simp
next
  case (Suc k)
  then have "split_on d (g @ concat (replicate k (d # g))) = g # replicate k g"
    using split_on_prefix [of d g] by simp
  then show ?case
    by (simp add: split_on_sep del: split_on.simps)
qed

lemma lines_xy_csv:
  "split_on CHR 0x0A (xy_csv a b) = ''n'' # replicate a ''x'' @ replicate b ''y''"
proof -
  have "split_on CHR 0x0A (concat (replicate b ''\<newline>y'')) = [] # replicate b ''y''"
    by (rule split_on_records_end) simp
  then have "split_on CHR 0x0A (concat (replicate a ''\<newline>x'') @ concat (replicate b ''\<newline>y''))
      = [] # replicate a ''x'' @ replicate b ''y''"
    by (intro split_on_records) simp_all
  then show ?thesis
    unfolding xy_csv_def using split_on_prefix [of "CHR 0x0A" "''n''"] by simp
qed

lemma plain_dsv_xy_csv:
  "plain_dsv '','' (Some (xy_csv a b)) =
     Inr \<lparr>rows = replicate a (map_of [(''n'', ''x'')]) @ replicate b (map_of [(''n'', ''y'')]),
          columns = Some [''n'']\<rparr>"
proof -
  have "xy_csv a b \<noteq> []" by (simp add: xy_csv_def)
  then show ?thesis by (simp add: lines_xy_csv)
qed

lemma plain_dsv_example_csv: "plain_dsv '','' (Some example_csv) = Inr example_parsed"
  by (simp add: example_csv_def example_parsed_def)

lemma model_of_fields:
  "priv_delimiter (model_of text) = '',''"
  "priv_content (model_of text) = Some text"
  "get_delimiter (model_of text) = '',''"
  "get_content (model_of text) = Some text"
  by (simp_all add: model_of_def CSVModel_new_def VDomModel_new_def get_delimiter_def
      get_content_def)

subsection \<open>\<open>parse\<close> and the display limit\<close>

text \<open>
  What \<open>parse\<close> does above the limit, for any parser: \<open>splice(0, DISPLAY_LIMIT)\<close> removes
  the first 1000 rows from the parsed array, the rows after them are what is returned, and
  the emitted \<open>available\<close> is the length of what is left.
\<close>

lemma parse_overflow:
  assumes "dsvFormat (priv_delimiter m) (priv_content m) = Inr parsed"
    and "1000 < length (rows parsed)"
  shows "parse dsvFormat m =
    (Inr (parsed\<lparr>rows := drop 1000 (rows parsed)\<rparr>), m,
     [maxExceeded \<lparr>available = length (rows parsed) - 1000, maximum = 1000\<rparr>])"
  using assms by (simp add: parse_def DISPLAY_LIMIT_def splice_def Let_def)

lemma parse_xy_csv:
  "parse plain_dsv (model_of (xy_csv 1000 1001)) =
    (Inr \<lparr>rows = replicate 1001 (map_of [(''n'', ''y'')]), columns = Some [''n'']\<rparr>,
     model_of (xy_csv 1000 1001),
     [maxExceeded \<lparr>available = 1001, maximum = 1000\<rparr>])"
proof -
  let ?m = "model_of (xy_csv 1000 1001)"
  let ?parsed = "\<lparr>rows = replicate 1000 (map_of [(''n'', ''x'')]) @ replicate 1001 (map_of [(''n'', ''y'')]),
      columns = Some [''n'']\<rparr>"
  have "plain_dsv (priv_delimiter ?m) (priv_content ?m) = Inr ?parsed"
    by (simp only: model_of_fields plain_dsv_xy_csv)
  moreover have "1000 < length (rows ?parsed)" by simp
  ultimately show ?thesis
    using parse_overflow [of plain_dsv ?m ?parsed] by simp
qed

text \<open>
  Claim C1, on a content of 2001 data rows (1000 rows \<open>x\<close>, then 1001 rows \<open>y\<close>): the
  parsed content has the 1000 rows \<open>x\<close> first, and \<open>parse\<close> returns the 1001 rows \<open>y\<close>
  that follow them, not the first 1000 rows.
\<close>

theorem parse_overflow_returns_tail:
  "plain_dsv (get_delimiter (model_of (xy_csv 1000 1001))) (get_content (model_of (xy_csv 1000 1001))) =
     Inr \<lparr>rows = replicate 1000 (map_of [(''n'', ''x'')]) @ replicate 1001 (map_of [(''n'', ''y'')]),
          columns = Some [''n'']\<rparr>
   \<and> fst (parse plain_dsv (model_of (xy_csv 1000 1001))) =
     Inr \<lparr>rows = replicate 1001 (map_of [(''n'', ''y'')]), columns = Some [''n'']\<rparr>"
  by (simp only: model_of_fields plain_dsv_xy_csv parse_xy_csv fst_conv simp_thms)

text \<open>
  Claim C2, on the same content of 2001 data rows: \<open>parse\<close> emits one \<open>maxExceeded\<close>
  value, whose \<open>maximum\<close> is 1000 and whose \<open>available\<close> is 1001, the number of rows left
  after the removal, not the 2001 rows of the data.
\<close>

theorem parse_overflow_available_after_splice:
  "snd (snd (parse plain_dsv (model_of (xy_csv 1000 1001)))) =
     [maxExceeded \<lparr>available = 1001, maximum = 1000\<rparr>]"
  by (simp only: parse_xy_csv snd_conv)

text \<open>
  Claim C3: when the parser returns at most 1000 rows for the model's delimiter and
  content, \<open>parse\<close> returns exactly the parsed array, leaves the model as it is and emits
  nothing.
\<close>

theorem parse_within_limit:
  assumes "dsvFormat (get_delimiter m) (get_content m) = Inr parsed"
    and "length (rows parsed) \<le> 1000"
  shows "parse dsvFormat m = (Inr parsed, m, [])"
  using assms by (simp add: parse_def DISPLAY_LIMIT_def get_delimiter_def get_content_def)

theorem parse_within_limit_witness:
  "plain_dsv (get_delimiter (model_of example_csv)) (get_content (model_of example_csv)) =
     Inr example_parsed
   \<and> length (rows example_parsed) \<le> 1000
   \<and> parse plain_dsv (model_of example_csv) = (Inr example_parsed, model_of example_csv, [])"
proof -
  have p: "plain_dsv (get_delimiter (model_of example_csv)) (get_content (model_of example_csv)) =
      Inr example_parsed"
    by (simp only: model_of_fields plain_dsv_example_csv)
  have l: "length (rows example_parsed) \<le> 1000"
    by (simp add: example_parsed_def)
  show ?thesis
    using p l parse_within_limit [of plain_dsv "model_of example_csv" example_parsed] by simp
qed

subsection \<open>The accessors\<close>

text \<open>
  Claim C4: assigning to \<open>content\<close> (to \<open>delimiter\<close>) the value it already has leaves the
  model as it is and emits nothing; assigning any other string stores it, changes nothing
  else and emits exactly one \<open>stateChanged\<close>.
\<close>

theorem setters_notify_on_change:
  "(get_content m = Some v \<longrightarrow> set_content v m = (m, []))
   \<and> (get_content m \<noteq> Some v \<longrightarrow>
        set_content v m = (m\<lparr>priv_content := Some v\<rparr>, [stateChanged])
        \<and> get_content (fst (set_content v m)) = Some v
        \<and> get_delimiter (fst (set_content v m)) = get_delimiter m)
   \<and> (get_delimiter m = v \<longrightarrow> set_delimiter v m = (m, []))
   \<and> (get_delimiter m \<noteq> v \<longrightarrow>
        set_delimiter v m = (m\<lparr>priv_delimiter := v\<rparr>, [stateChanged])
        \<and> get_delimiter (fst (set_delimiter v m)) = v
        \<and> get_content (fst (set_delimiter v m)) = get_content m)"
  by (simp add: set_content_def set_delimiter_def get_content_def get_delimiter_def)

theorem setters_notify_on_change_witness:
  "get_content (model_of ''a'') = Some ''a''
   \<and> set_content ''a'' (model_of ''a'') = (model_of ''a'', [])
   \<and> get_content (model_of ''a'') \<noteq> Some '',''
   \<and> set_content '','' (model_of ''a'') = ((model_of ''a'')\<lparr>priv_content := Some '',''\<rparr>, [stateChanged])
   \<and> get_delimiter (model_of ''a'') = '',''
   \<and> set_delimiter '','' (model_of ''a'') = (model_of ''a'', [])
   \<and> get_delimiter (model_of ''a'') \<noteq> ''a''
   \<and> set_delimiter ''a'' (model_of ''a'') = ((model_of ''a'')\<lparr>priv_delimiter := ''a''\<rparr>, [stateChanged])"
  using setters_notify_on_change [of "model_of ''a''" "''a''"]
    setters_notify_on_change [of "model_of ''a''" "'',''"]
  by (simp add: model_of_fields)

subsection \<open>Construction and the default delimiter\<close>

text \<open>
  Claim C6, on a model constructed with no options (or with no \<open>content\<close> option): its
  \<open>delimiter\<close> is \<open>,\<close>, but its \<open>content\<close> is \<open>undefined\<close>, not the empty string: the
  constructor overwrites the initial empty string with the absent option.
\<close>

theorem new_model_content_undefined:
  "get_content (CSVModel_new None) = None
   \<and> get_content (CSVModel_new (Some \<lparr>content = None, delimiter = d\<rparr>)) = None
   \<and> get_content (CSVModel_new None) \<noteq> Some []
   \<and> get_delimiter (CSVModel_new None) = '',''"
  by (simp add: CSVModel_new_def VDomModel_new_def no_options_def get_content_def get_delimiter_def)

text \<open>
  Claim C7 as it is written fails for the setter: after the empty string is assigned to
  \<open>delimiter\<close> of a new model, the delimiter observed is the empty string, not \<open>,\<close>.
\<close>

theorem set_delimiter_empty_counterexample:
  "get_delimiter (fst (set_delimiter [] (CSVModel_new None))) \<noteq> '',''"
  by (simp add: CSVModel_new_def VDomModel_new_def no_options_def set_delimiter_def get_delimiter_def)

text \<open>
  Claim C7, amended: the delimiter observed is \<open>,\<close> whenever the \<open>delimiter\<close> option is
  absent or the empty string at construction; the setter applies no default, so after any
  string \<open>v\<close> is assigned the delimiter observed is \<open>v\<close>; and \<open>parse\<close> hands the parser the
  delimiter that \<open>get delimiter\<close> observes.
\<close>

theorem delimiter_default_at_construction:
  "get_delimiter (CSVModel_new None) = '',''
   \<and> get_delimiter (CSVModel_new (Some \<lparr>content = c, delimiter = None\<rparr>)) = '',''
   \<and> get_delimiter (CSVModel_new (Some \<lparr>content = c, delimiter = Some []\<rparr>)) = '',''
   \<and> get_delimiter (fst (set_delimiter v m)) = v
   \<and> parse dsvFormat m = parse (\<lambda>d. dsvFormat (get_delimiter m)) m"
  by (simp add: CSVModel_new_def VDomModel_new_def no_options_def set_delimiter_def
      get_delimiter_def parse_def)

subsection \<open>Disposal\<close>

lemma live_model_fields:
  "live_model = \<lparr>priv_content = Some ''a,b'', priv_delimiter = '';'', isDisposed = False,
     stateChanged_slots = [1], maxExceeded_slots = [2, 3]\<rparr>"
  by (simp add: live_model_def CSVModel_new_def VDomModel_new_def)

lemma disposed_model_fields:
  "disposed_model = \<lparr>priv_content = Some ''c'', priv_delimiter = '';'', isDisposed = True,
     stateChanged_slots = [4], maxExceeded_slots = []\<rparr>"
  by (simp add: disposed_model_def live_model_fields dispose_def VDomModel_dispose_def
      clearSignalData_def set_content_def)

text \<open>
  Claim C8: \<open>dispose\<close> of a model that is not disposed changes exactly three things, the
  model is marked disposed and no slot stays connected to either signal, and content and
  delimiter are what they were; \<open>dispose\<close> of a disposed model returns the model as it
  is, whatever it holds; so a second call right after the first, and any number of
  further calls, leave the model as the first call left it.
\<close>

theorem dispose_idempotent:
  "(\<not> isDisposed m \<longrightarrow>
      dispose m = m\<lparr>isDisposed := True, stateChanged_slots := [], maxExceeded_slots := []\<rparr>
      \<and> isDisposed (dispose m)
      \<and> stateChanged_slots (dispose m) = [] \<and> maxExceeded_slots (dispose m) = []
      \<and> get_content (dispose m) = get_content m
      \<and> get_delimiter (dispose m) = get_delimiter m)
   \<and> (isDisposed m \<longrightarrow> dispose m = m)
   \<and> dispose (dispose m) = dispose m
   \<and> (dispose ^^ n) (dispose m) = dispose m"
proof -
  have guard: "dispose x = x" if "isDisposed x" for x
    using that by (simp add: dispose_def)
  have first: "dispose m = m\<lparr>isDisposed := True, stateChanged_slots := [], maxExceeded_slots := []\<rparr>"
    if "\<not> isDisposed m"
    using that by (simp add: dispose_def VDomModel_dispose_def clearSignalData_def)
  have d: "isDisposed (dispose m)"
    by (cases "isDisposed m") (simp_all add: guard first)
  then have again: "dispose (dispose m) = dispose m"
    by (rule guard)
  have many: "(dispose ^^ n) (dispose m) = dispose m"
    by (induction n) (simp_all add: again)
  show ?thesis
    using guard [of m] again many
    by (auto simp add: first get_content_def get_delimiter_def)
qed

theorem dispose_idempotent_witness:
  "\<not> isDisposed live_model
   \<and> dispose live_model =
       \<lparr>priv_content = Some ''a,b'', priv_delimiter = '';'', isDisposed = True,
        stateChanged_slots = [], maxExceeded_slots = []\<rparr>
   \<and> dispose (dispose live_model) =
       \<lparr>priv_content = Some ''a,b'', priv_delimiter = '';'', isDisposed = True,
        stateChanged_slots = [], maxExceeded_slots = []\<rparr>
   \<and> isDisposed disposed_model
   \<and> dispose disposed_model =
       \<lparr>priv_content = Some ''c'', priv_delimiter = '';'', isDisposed = True,
        stateChanged_slots = [4], maxExceeded_slots = []\<rparr>"
proof -
  have nd: "\<not> isDisposed live_model"
    by (simp add: live_model_fields)
  have dd: "isDisposed disposed_model"
    by (simp add: disposed_model_fields)
  from dispose_idempotent [of live_model 1] nd
  have a: "dispose live_model =
      live_model\<lparr>isDisposed := True, stateChanged_slots := [], maxExceeded_slots := []\<rparr>"
    and b: "dispose (dispose live_model) = dispose live_model"
    by blast+
  from dispose_idempotent [of disposed_model 1] dd
  have c: "dispose disposed_model = disposed_model"
    by blast
  have a': "dispose live_model =
       \<lparr>priv_content = Some ''a,b'', priv_delimiter = '';'', isDisposed = True,
        stateChanged_slots = [], maxExceeded_slots = []\<rparr>"
    by (subst a) (simp add: live_model_fields)
  have b': "dispose (dispose live_model) =
       \<lparr>priv_content = Some ''a,b'', priv_delimiter = '';'', isDisposed = True,
        stateChanged_slots = [], maxExceeded_slots = []\<rparr>"
    by (subst b) (rule a')
  have c': "dispose disposed_model =
       \<lparr>priv_content = Some ''c'', priv_delimiter = '';'', isDisposed = True,
        stateChanged_slots = [4], maxExceeded_slots = []\<rparr>"
    by (subst c) (simp add: disposed_model_fields)
  from nd a' b' dd c' show ?thesis
    by (intro conjI)
qed

subsection \<open>\<open>parse\<close> and the state of the model\<close>

text \<open>
  Claim C10: the model after \<open>parse\<close> is the model before it, so \<open>content\<close> and
  \<open>delimiter\<close> are what they were, and \<open>stateChanged\<close> is not among the emissions of
  the call. This holds too when the parser fails.
\<close>

theorem parse_keeps_model:
  "fst (snd (parse dsvFormat m)) = m
   \<and> get_content (fst (snd (parse dsvFormat m))) = get_content m
   \<and> get_delimiter (fst (snd (parse dsvFormat m))) = get_delimiter m
   \<and> stateChanged \<notin> set (snd (snd (parse dsvFormat m)))"
  by (simp add: parse_def Let_def split: sum.split)

subsection \<open>Rendering\<close>

lemma parse_example_csv:
  "parse plain_dsv (model_of example_csv) = (Inr example_parsed, model_of example_csv, [])"
  by (simp add: parse_def model_of_fields plain_dsv_example_csv example_parsed_def DISPLAY_LIMIT_def
      del: plain_dsv.simps)

text \<open>
  Claim C5: when \<open>parse\<close> of the bound model returns a parsed array, \<open>render\<close> returns a
  \<open>table\<close> of a \<open>thead\<close> with one \<open>th\<close> per column, holding the column name, and a
  \<open>tbody\<close> with one \<open>tr\<close> per row of the array, each with one \<open>td\<close> per column, holding
  the row's value for the column (nothing if the row has none). On the content
  \<open>a,b\<close> / \<open>1,2\<close> / \<open>3,4\<close> with delimiter \<open>,\<close> this is the header \<open>a\<close>, \<open>b\<close> and the
  body rows \<open>1\<close>, \<open>2\<close> and \<open>3\<close>, \<open>4\<close>.
\<close>

theorem render_table:
  assumes "parse dsvFormat (model this) = (Inr parsed, m, out)"
    and "cols = (case columns parsed of None \<Rightarrow> [] | Some cs \<Rightarrow> cs)"
  shows "render dsvFormat this =
    (Inr (VElement ''table''
       [VElement ''thead'' (map (\<lambda>col. VElement ''th'' [VText col]) cols),
        VElement ''tbody''
          (map (\<lambda>row. VElement ''tr''
             (map (\<lambda>col. VElement ''td'' (case row col of None \<Rightarrow> [] | Some s \<Rightarrow> [VText s])) cols))
             (rows parsed))]),
     this\<lparr>model := m\<rparr>, out)"
proof -
  have td: "h_td x = VElement ''td'' (case x of None \<Rightarrow> [] | Some s \<Rightarrow> [VText s])" for x
    by (cases x) (simp_all add: h_td_def)
  show ?thesis
    using assms
    by (simp add: render_def Let_def h_table_def h_thead_def h_tbody_def h_tr_def h_th_def h_def td)
qed

theorem render_table_witness:
  "parse plain_dsv (model \<lparr>model = model_of ''a,b\<newline>1,2\<newline>3,4''\<rparr>)
     = (Inr example_parsed, model_of ''a,b\<newline>1,2\<newline>3,4'', [])
   \<and> [''a'', ''b''] = (case columns example_parsed of None \<Rightarrow> [] | Some cs \<Rightarrow> cs)
   \<and> render plain_dsv \<lparr>model = model_of ''a,b\<newline>1,2\<newline>3,4''\<rparr> =
    (Inr (VElement ''table''
       [VElement ''thead'' [VElement ''th'' [VText ''a''], VElement ''th'' [VText ''b'']],
        VElement ''tbody''
          [VElement ''tr'' [VElement ''td'' [VText ''1''], VElement ''td'' [VText ''2'']],
           VElement ''tr'' [VElement ''td'' [VText ''3''], VElement ''td'' [VText ''4'']]]]),
     \<lparr>model = model_of ''a,b\<newline>1,2\<newline>3,4''\<rparr>, [])"
proof -
  have p: "parse plain_dsv (model \<lparr>model = model_of ''a,b\<newline>1,2\<newline>3,4''\<rparr>)
     = (Inr example_parsed, model_of ''a,b\<newline>1,2\<newline>3,4'', [])"
    using parse_example_csv by (simp add: example_csv_def)
  have c: "[''a'', ''b''] = (case columns example_parsed of None \<Rightarrow> [] | Some cs \<Rightarrow> cs)"
    by (simp add: example_parsed_def)
  have r: "render plain_dsv \<lparr>model = model_of ''a,b\<newline>1,2\<newline>3,4''\<rparr> =
    (Inr (VElement ''table''
       [VElement ''thead'' [VElement ''th'' [VText ''a''], VElement ''th'' [VText ''b'']],
        VElement ''tbody''
          [VElement ''tr'' [VElement ''td'' [VText ''1''], VElement ''td'' [VText ''2'']],
           VElement ''tr'' [VElement ''td'' [VText ''3''], VElement ''td'' [VText ''4'']]]]),
     \<lparr>model = model_of ''a,b\<newline>1,2\<newline>3,4''\<rparr>, [])"
    using render_table [OF p c] by (simp add: example_parsed_def)
  from p c r show ?thesis by (intro conjI)
qed

text \<open>
  Claim C9: when \<open>parse\<close> returns a parsed array with no columns (the \<open>columns\<close> property
  absent or empty), \<open>render\<close> returns a table, not a failure: its \<open>thead\<close> is empty and
  its \<open>tbody\<close> has one \<open>tr\<close> without cells per row. Empty content is such a case.
\<close>

theorem render_zero_columns:
  assumes "parse dsvFormat (model this) = (Inr parsed, m, out)"
    and "columns parsed = None \<or> columns parsed = Some []"
  shows "fst (render dsvFormat this) =
    Inr (VElement ''table''
       [VElement ''thead'' [],
        VElement ''tbody'' (replicate (length (rows parsed)) (VElement ''tr'' []))])"
  using assms
  by (auto simp add: render_def Let_def h_table_def h_thead_def h_tbody_def h_tr_def h_def
      map_replicate_const)

theorem render_zero_columns_witness:
  "parse plain_dsv (model \<lparr>model = model_of []\<rparr>)
     = (Inr \<lparr>rows = [], columns = None\<rparr>, model_of [], [])
   \<and> (columns \<lparr>rows = [], columns = None\<rparr> = None \<or> columns \<lparr>rows = [], columns = None\<rparr> = Some [])
   \<and> fst (render plain_dsv \<lparr>model = model_of []\<rparr>) =
       Inr (VElement ''table'' [VElement ''thead'' [], VElement ''tbody'' []])"
proof -
  have p: "parse plain_dsv (model \<lparr>model = model_of []\<rparr>)
     = (Inr \<lparr>rows = [], columns = None\<rparr>, model_of [], [])"
    by (simp add: parse_def model_of_fields DISPLAY_LIMIT_def)
  have c: "columns \<lparr>rows = [], columns = None\<rparr> = None \<or> columns \<lparr>rows = [], columns = None\<rparr> = Some []"
    by simp
  show ?thesis
    using p c render_zero_columns [OF p c] by simp
qed

end
